theory Spec2Isabelle
  imports Main "HOL-Library.Sublist"
begin

section \<open>The voice game master of backend/src/agent.py\<close>

text \<open>
  The turn orchestration of \<^verbatim>\<open>agent.py\<close>: the dataclass \<^verbatim>\<open>PlayerMemory\<close>, the
  fields that \<^verbatim>\<open>VoiceGM.__init__\<close> sets, the method \<^verbatim>\<open>VoiceGM.run\<close> and the six scene
  methods. Python's \<^verbatim>\<open>int\<close> is unbounded, so \<^verbatim>\<open>health\<close>, \<^verbatim>\<open>turn\<close> and \<^verbatim>\<open>max_turns\<close> are
  \<^typ>\<open>int\<close>; a \<^verbatim>\<open>str\<close> is a \<^typ>\<open>string\<close>, one \<^typ>\<open>char\<close> for each of its characters
  (the slice \<^verbatim>\<open>[:80]\<close> and the f-string count and copy characters, as \<^const>\<open>take\<close>
  and \<open>@\<close> do list elements), and a \<^verbatim>\<open>List[str]\<close> is a \<^typ>\<open>string list\<close>.
  The methods mutate \<^verbatim>\<open>self\<close> in place; here each takes the object and returns the
  updated one beside its return value. No method raises, so there is no error value.
  The call \<^verbatim>\<open>logger.info\<close> in \<^verbatim>\<open>run\<close> writes to the log and changes neither the object
  nor the returned string; it is left out.
\<close>

subsection \<open>Data\<close>

text \<open>
  \<^verbatim>\<open>
  @dataclass
  class PlayerMemory:
      name: str = "Player"
      health: int = 100
      inventory: List[str] = field(default_factory=list)
      allies: List[str] = field(default_factory=list)
      visited_places: List[str] = field(default_factory=list)
      past_actions: List[str] = field(default_factory=list)
  \<close>
\<close>

record PlayerMemory =
  name :: string
  health :: int
  inventory :: "string list"
  allies :: "string list"
  visited_places :: "string list"
  past_actions :: "string list"

text \<open>The fields of a \<^verbatim>\<open>VoiceGM\<close> object that \<^verbatim>\<open>__init__\<close> sets and \<^verbatim>\<open>run\<close> uses.\<close>

record VoiceGM =
  memory :: PlayerMemory
  turn :: int
  max_turns :: int

text \<open>The constructor call \<^verbatim>\<open>PlayerMemory(name=n)\<close>: every other field takes its default.\<close>

definition PlayerMemory_new :: "string \<Rightarrow> PlayerMemory" where
  "PlayerMemory_new n =
     \<lparr>name = n, health = 100, inventory = [], allies = [], visited_places = [],
      past_actions = []\<rparr>"

text \<open>
  \<^verbatim>\<open>
  self.memory = PlayerMemory(name="Arin")
  self.turn = 0
  self.max_turns = 10  # short session
  \<close>
\<close>

definition VoiceGM_new :: VoiceGM where
  "VoiceGM_new = \<lparr>memory = PlayerMemory_new ''Arin'', turn = 0, max_turns = 10\<rparr>"

subsection \<open>The scenes\<close>

text \<open>
  Each scene method returns its narration; \<^verbatim>\<open>scene_1\<close> to \<^verbatim>\<open>scene_4\<close> first change
  \<^verbatim>\<open>self.memory\<close>. The parameter \<^verbatim>\<open>action\<close> is read by \<^verbatim>\<open>generic_scene\<close> only, whose
  f-string puts it between two constant pieces.
\<close>

definition scene_1 :: "VoiceGM \<Rightarrow> string \<times> VoiceGM" where
  "scene_1 self =
     (''You are in a quiet tavern near a dark forest. The fire is low. A small gnome says someone stole a map. What do you do?'',
      self\<lparr>memory := (memory self)
        \<lparr>visited_places := visited_places (memory self) @ [''Tavern'']\<rparr>\<rparr>)"

definition scene_2 :: "VoiceGM \<Rightarrow> string \<Rightarrow> string \<times> VoiceGM" where
  "scene_2 self action =
     (''A hooded ranger named Fenrix stands up. He offers to help you find the map. What do you do?'',
      self\<lparr>memory := (memory self)\<lparr>allies := allies (memory self) @ [''Fenrix'']\<rparr>\<rparr>)"

definition scene_3 :: "VoiceGM \<Rightarrow> string \<Rightarrow> string \<times> VoiceGM" where
  "scene_3 self action =
     (''You walk into the forest. You find a small piece of paper with a star mark on it. It might be part of the map. What do you do?'',
      self\<lparr>memory := (memory self)
        \<lparr>visited_places := visited_places (memory self) @ [''Forest''],
         inventory := inventory (memory self) @ [''Map Scrap'']\<rparr>\<rparr>)"

definition scene_4 :: "VoiceGM \<Rightarrow> string \<Rightarrow> string \<times> VoiceGM" where
  "scene_4 self action =
     (''You hear wolves. One jumps out and scares you. You lose a little health. Fenrix draws his bow to protect you. What do you do?'',
      self\<lparr>memory := (memory self)\<lparr>health := health (memory self) - 10\<rparr>\<rparr>)"

definition generic_scene :: "VoiceGM \<Rightarrow> string \<Rightarrow> string \<times> VoiceGM" where
  "generic_scene self action =
     (''The world reacts to your action: '' @ action @
        ''. You see the path ahead glowing with stars. What do you do?'',
      self)"

definition final_scene :: "VoiceGM \<Rightarrow> string \<times> VoiceGM" where
  "final_scene self =
     (''You reach a stone door with a glowing star mark. Fenrix nods at you. The door opens slowly. A new quest begins. What do you do?'',
      self)"

subsection \<open>One turn\<close>

text \<open>
  \<^verbatim>\<open>player_input = ctx.messages[-1].content if ctx.messages else ""\<close>:
  the context is the list of the contents of its messages.
\<close>

definition player_input :: "string list \<Rightarrow> string" where
  "player_input messages = (if messages \<noteq> [] then last messages else [])"

text \<open>
  The start of \<^verbatim>\<open>run\<close>, before the scene is chosen:
  \<^verbatim>\<open>
  self.turn += 1
  if player_input:
      self.memory.past_actions.append(player_input[:80])
  \<close>
  A string is true in Python when it is not empty.
\<close>

definition begin_turn :: "VoiceGM \<Rightarrow> string \<Rightarrow> VoiceGM" where
  "begin_turn self inp =
     (let self1 = self\<lparr>turn := turn self + 1\<rparr>
      in if inp \<noteq> []
         then self1\<lparr>memory := (memory self1)
                \<lparr>past_actions := past_actions (memory self1) @ [take 80 inp]\<rparr>\<rparr>
         else self1)"

text \<open>
  \<^verbatim>\<open>
  if self.turn == 1:
      scene = self.scene_1()
  elif self.turn == 2:
      scene = self.scene_2(player_input)
  elif self.turn == 3:
      scene = self.scene_3(player_input)
  elif self.turn == 4:
      scene = self.scene_4(player_input)
  elif self.turn >= self.max_turns:
      scene = self.final_scene()
  else:
      scene = self.generic_scene(player_input)
  return scene
  \<close>
\<close>

definition run :: "VoiceGM \<Rightarrow> string list \<Rightarrow> string \<times> VoiceGM" where
  "run self messages =
     (let inp = player_input messages;
          self1 = begin_turn self inp
      in if turn self1 = 1 then scene_1 self1
         else if turn self1 = 2 then scene_2 self1 inp
         else if turn self1 = 3 then scene_3 self1 inp
         else if turn self1 = 4 then scene_4 self1 inp
         else if turn self1 \<ge> max_turns self1 then final_scene self1
         else generic_scene self1 inp)"

text \<open>
  The object after a sequence of calls of \<^verbatim>\<open>run\<close>, one context per call, in order.
\<close>

fun run_calls :: "VoiceGM \<Rightarrow> string list list \<Rightarrow> VoiceGM" where
  "run_calls self [] = self"
| "run_calls self (messages # rest) = run_calls (snd (run self messages)) rest"

text \<open>The closing prompt that the agent's instructions ask every narration to end with.\<close>

definition closing_prompt :: string where
  "closing_prompt = ''What do you do?''"

text \<open>
  What a session in the default configuration looks like after any number of calls: every
  field of the memory but \<^verbatim>\<open>past_actions\<close> is a function of the turn counter.
\<close>

definition session_inv :: "VoiceGM \<Rightarrow> bool" where
  "session_inv s =
     (max_turns s = 10 \<and> 0 \<le> turn s \<and>
      name (memory s) = ''Arin'' \<and>
      health (memory s) = (if turn s < 4 then 100 else 90) \<and>
      inventory (memory s) = (if turn s < 3 then [] else [''Map Scrap'']) \<and>
      allies (memory s) = (if turn s < 2 then [] else [''Fenrix'']) \<and>
      visited_places (memory s) =
        (if turn s < 1 then [] else if turn s < 3 then [''Tavern'']
         else [''Tavern'', ''Forest'']))"

section \<open>Properties\<close>

subsection \<open>Shared facts\<close>

lemma player_input_single: "player_input [u] = u"
  by (simp add: player_input_def)

lemma turn_begin_turn: "turn (begin_turn self inp) = turn self + 1"
  by (simp add: begin_turn_def Let_def)

lemma max_turns_begin_turn: "max_turns (begin_turn self inp) = max_turns self"
  by (simp add: begin_turn_def Let_def)

lemma turn_run: "turn (snd (run self messages)) = turn self + 1"
  by (simp add: run_def Let_def turn_begin_turn scene_1_def scene_2_def scene_3_def
      scene_4_def final_scene_def generic_scene_def)

lemma max_turns_run: "max_turns (snd (run self messages)) = max_turns self"
  by (simp add: run_def Let_def max_turns_begin_turn scene_1_def scene_2_def scene_3_def
      scene_4_def final_scene_def generic_scene_def)

lemma run_calls_append:
  "run_calls self (cs @ ds) = run_calls (run_calls self cs) ds"
  by (induction cs arbitrary: self) simp_all

lemma turn_run_calls: "turn (run_calls self cs) = turn self + int (length cs)"
  by (induction cs arbitrary: self) (simp_all add: turn_run)

lemma max_turns_run_calls: "max_turns (run_calls self cs) = max_turns self"
  by (induction cs arbitrary: self) (simp_all add: max_turns_run)

lemmas scene_defs = scene_1_def scene_2_def scene_3_def scene_4_def generic_scene_def
  final_scene_def

text \<open>What one call does to the memory: the log entry, then the scene's own change.\<close>

lemma memory_begin_turn:
  "memory (begin_turn self inp) =
     (memory self)\<lparr>past_actions := past_actions (memory self) @
        (if inp \<noteq> [] then [take 80 inp] else [])\<rparr>"
  by (simp add: begin_turn_def Let_def)

lemma memory_run:
  "memory (snd (run self messages)) =
     (let m = memory (begin_turn self (player_input messages)) in
      if turn self + 1 = 1 then m\<lparr>visited_places := visited_places m @ [''Tavern'']\<rparr>
      else if turn self + 1 = 2 then m\<lparr>allies := allies m @ [''Fenrix'']\<rparr>
      else if turn self + 1 = 3
        then m\<lparr>visited_places := visited_places m @ [''Forest''],
               inventory := inventory m @ [''Map Scrap'']\<rparr>
      else if turn self + 1 = 4 then m\<lparr>health := health m - 10\<rparr>
      else m)"
  by (simp add: run_def Let_def turn_begin_turn scene_defs)

lemma prefix_run:
  "prefix (visited_places (memory self)) (visited_places (memory (snd (run self messages))))"
  "prefix (inventory (memory self)) (inventory (memory (snd (run self messages))))"
  "prefix (allies (memory self)) (allies (memory (snd (run self messages))))"
  "prefix (past_actions (memory self)) (past_actions (memory (snd (run self messages))))"
  by (simp_all add: memory_run memory_begin_turn Let_def)

lemma prefix_visited_places:
  "prefix (visited_places (memory self)) (visited_places (memory (run_calls self cs)))"
proof (induction cs arbitrary: self)
  case Nil
  show ?case by simp
next
  case (Cons m cs)
  from prefix_run(1) [of self m] Cons.IH [of "snd (run self m)"]
  show ?case by (simp add: prefix_order.trans)
qed

lemma prefix_inventory:
  "prefix (inventory (memory self)) (inventory (memory (run_calls self cs)))"
proof (induction cs arbitrary: self)
  case Nil
  show ?case by simp
next
  case (Cons m cs)
  from prefix_run(2) [of self m] Cons.IH [of "snd (run self m)"]
  show ?case by (simp add: prefix_order.trans)
qed

lemma prefix_allies:
  "prefix (allies (memory self)) (allies (memory (run_calls self cs)))"
proof (induction cs arbitrary: self)
  case Nil
  show ?case by simp
next
  case (Cons m cs)
  from prefix_run(3) [of self m] Cons.IH [of "snd (run self m)"]
  show ?case by (simp add: prefix_order.trans)
qed

lemma prefix_past_actions:
  "prefix (past_actions (memory self)) (past_actions (memory (run_calls self cs)))"
proof (induction cs arbitrary: self)
  case Nil
  show ?case by simp
next
  case (Cons m cs)
  from prefix_run(4) [of self m] Cons.IH [of "snd (run self m)"]
  show ?case by (simp add: prefix_order.trans)
qed

lemma session_turn: "turn (run_calls VoiceGM_new cs) = int (length cs)"
  by (simp add: turn_run_calls VoiceGM_new_def)

subsection \<open>Every scene ends with the closing prompt\<close>

lemma suffix_scene_1: "suffix closing_prompt (fst (scene_1 self))"
  by (simp add: scene_1_def closing_prompt_def suffix_to_prefix)

lemma suffix_scene_2: "suffix closing_prompt (fst (scene_2 self action))"
  by (simp add: scene_2_def closing_prompt_def suffix_to_prefix)

lemma suffix_scene_3: "suffix closing_prompt (fst (scene_3 self action))"
  by (simp add: scene_3_def closing_prompt_def suffix_to_prefix)

lemma suffix_scene_4: "suffix closing_prompt (fst (scene_4 self action))"
  by (simp add: scene_4_def closing_prompt_def suffix_to_prefix)

lemma suffix_generic_scene: "suffix closing_prompt (fst (generic_scene self action))"
  by (simp add: generic_scene_def closing_prompt_def suffix_to_prefix)

lemma suffix_final_scene: "suffix closing_prompt (fst (final_scene self))"
  by (simp add: final_scene_def closing_prompt_def suffix_to_prefix)

subsection \<open>The invariant of a default session\<close>

lemma session_inv_new: "session_inv VoiceGM_new"
  by (simp add: session_inv_def VoiceGM_new_def PlayerMemory_new_def)

lemma session_inv_run:
  assumes "session_inv s"
  shows "session_inv (snd (run s messages))"
proof -
  consider "turn s = 0" | "turn s = 1" | "turn s = 2" | "turn s = 3" | "4 \<le> turn s"
    using assms by (auto simp: session_inv_def) arith
  then show ?thesis
  proof cases
    case 1
    with assms show ?thesis
      by (simp add: session_inv_def run_def Let_def begin_turn_def scene_1_def)
  next
    case 2
    with assms show ?thesis
      by (simp add: session_inv_def run_def Let_def begin_turn_def scene_2_def)
  next
    case 3
    with assms show ?thesis
      by (simp add: session_inv_def run_def Let_def begin_turn_def scene_3_def)
  next
    case 4
    with assms show ?thesis
      by (simp add: session_inv_def run_def Let_def begin_turn_def scene_4_def)
  next
    case 5
    with assms show ?thesis
      by (simp add: session_inv_def run_def Let_def begin_turn_def final_scene_def
          generic_scene_def)
  qed
qed

lemma session_inv_run_calls: "session_inv s \<Longrightarrow> session_inv (run_calls s cs)"
  by (induction cs arbitrary: s) (simp_all add: session_inv_run)

lemma session_inv_session: "session_inv (run_calls VoiceGM_new cs)"
  by (rule session_inv_run_calls [OF session_inv_new])

section \<open>The claims\<close>

subsection \<open>C1: the closing prompt\<close>

text \<open>
  C1, as stated, fails on its last part: the narration of \<^verbatim>\<open>final_scene\<close> does end with
  \<^verbatim>\<open>What do you do?\<close>. Here the tenth call of a fresh session, with no player input at
  any turn, is the call of \<^verbatim>\<open>final_scene\<close>, and what it returns ends with the prompt.
\<close>

theorem final_scene_ends_with_prompt:
  "run (run_calls VoiceGM_new [[], [], [], [], [], [], [], [], []]) [] =
     final_scene (begin_turn (run_calls VoiceGM_new [[], [], [], [], [], [], [], [], []]) [])
   \<and> suffix ''What do you do?''
        (fst (run (run_calls VoiceGM_new [[], [], [], [], [], [], [], [], []]) []))"
  by (simp add: run_def Let_def begin_turn_def player_input_def scene_1_def scene_2_def
      scene_3_def scene_4_def generic_scene_def final_scene_def VoiceGM_new_def
      PlayerMemory_new_def suffix_to_prefix)

text \<open>
  C1, amended: the narration of every one of the six scenes, \<^verbatim>\<open>final_scene\<close> included,
  ends with the exact string \<^verbatim>\<open>What do you do?\<close>, whatever the object and the player's
  action are; so does the string that \<^verbatim>\<open>run\<close> returns, for every object and every
  context.
\<close>

theorem narration_ends_with_prompt:
  "suffix closing_prompt (fst (scene_1 self)) \<and>
   suffix closing_prompt (fst (scene_2 self action)) \<and>
   suffix closing_prompt (fst (scene_3 self action)) \<and>
   suffix closing_prompt (fst (scene_4 self action)) \<and>
   suffix closing_prompt (fst (generic_scene self action)) \<and>
   suffix closing_prompt (fst (final_scene self)) \<and>
   suffix closing_prompt (fst (run self messages))"
proof -
  have "suffix closing_prompt (fst (run self messages))"
    by (simp add: run_def Let_def suffix_scene_1 suffix_scene_2 suffix_scene_3
        suffix_scene_4 suffix_generic_scene suffix_final_scene)
  then show ?thesis
    by (simp only: suffix_scene_1 suffix_scene_2 suffix_scene_3 suffix_scene_4
        suffix_generic_scene suffix_final_scene simp_thms)
qed

subsection \<open>C2: the order of the checks\<close>

text \<open>
  C2, as stated, fails: \<^verbatim>\<open>run\<close> tests the numbered slots before it compares the turn with
  \<^verbatim>\<open>max_turns\<close>. With \<^verbatim>\<open>max_turns\<close> set to 3 on a fresh object, the third call has
  \<^verbatim>\<open>turn >= max_turns\<close> and still calls \<^verbatim>\<open>scene_3\<close>, not \<^verbatim>\<open>final_scene\<close>.
\<close>

theorem numbered_slot_wins_over_max_turns:
  "max_turns (run_calls (VoiceGM_new\<lparr>max_turns := 3\<rparr>) [[], []])
     \<le> turn (begin_turn (run_calls (VoiceGM_new\<lparr>max_turns := 3\<rparr>) [[], []]) [])
   \<and> run (run_calls (VoiceGM_new\<lparr>max_turns := 3\<rparr>) [[], []]) [] =
       scene_3 (begin_turn (run_calls (VoiceGM_new\<lparr>max_turns := 3\<rparr>) [[], []]) []) []
   \<and> run (run_calls (VoiceGM_new\<lparr>max_turns := 3\<rparr>) [[], []]) [] \<noteq>
       final_scene (begin_turn (run_calls (VoiceGM_new\<lparr>max_turns := 3\<rparr>) [[], []]) [])"
  by (simp add: run_def Let_def begin_turn_def player_input_def scene_defs VoiceGM_new_def
      PlayerMemory_new_def)

text \<open>
  C2, amended: for every \<^verbatim>\<open>max_turns\<close> and every turn, the numbered slots 1 to 4 are
  tested first, then \<^verbatim>\<open>turn >= max_turns\<close>, then the generic fallback. So whenever the
  incremented turn is at least \<^verbatim>\<open>max_turns\<close>, the call is that of the numbered scene when
  the turn is 1, 2, 3 or 4, and of \<^verbatim>\<open>final_scene\<close> otherwise; it is never
  \<^verbatim>\<open>generic_scene\<close>.
\<close>

theorem final_scene_unless_numbered_slot:
  assumes "max_turns self \<le> turn self + 1"
  shows "run self messages =
     (let inp = player_input messages; self1 = begin_turn self inp
      in if turn self + 1 = 1 then scene_1 self1
         else if turn self + 1 = 2 then scene_2 self1 inp
         else if turn self + 1 = 3 then scene_3 self1 inp
         else if turn self + 1 = 4 then scene_4 self1 inp
         else final_scene self1)"
  using assms by (simp add: run_def Let_def turn_begin_turn max_turns_begin_turn)

theorem final_scene_unless_numbered_slot_witness:
  "max_turns (VoiceGM_new\<lparr>turn := 4, max_turns := 3\<rparr>)
     \<le> turn (VoiceGM_new\<lparr>turn := 4, max_turns := 3\<rparr>) + 1
   \<and> run (VoiceGM_new\<lparr>turn := 4, max_turns := 3\<rparr>) [''I wait''] =
       final_scene (begin_turn (VoiceGM_new\<lparr>turn := 4, max_turns := 3\<rparr>) ''I wait'')"
  using final_scene_unless_numbered_slot
    [of "VoiceGM_new\<lparr>turn := 4, max_turns := 3\<rparr>" "[''I wait'']"]
  by (simp add: Let_def player_input_def VoiceGM_new_def)

subsection \<open>C3: the schedule of a default session\<close>

text \<open>
  C3: with \<^verbatim>\<open>max_turns = 10\<close>, the call that makes the turn 1, 2, 3 or 4 is that of
  \<^verbatim>\<open>scene_1\<close>, \<^verbatim>\<open>scene_2\<close>, \<^verbatim>\<open>scene_3\<close> or \<^verbatim>\<open>scene_4\<close>, and the call that makes the
  turn 5 to 9 is that of \<^verbatim>\<open>generic_scene\<close>. This holds for every context, so the choice
  is a function of the turn alone: the player's input reaches the chosen scene as its
  argument and decides nothing.
\<close>

theorem default_schedule:
  assumes "max_turns self = 10"
  shows "(turn self + 1 = 1 \<longrightarrow>
            run self messages = scene_1 (begin_turn self (player_input messages))) \<and>
         (turn self + 1 = 2 \<longrightarrow>
            run self messages =
              scene_2 (begin_turn self (player_input messages)) (player_input messages)) \<and>
         (turn self + 1 = 3 \<longrightarrow>
            run self messages =
              scene_3 (begin_turn self (player_input messages)) (player_input messages)) \<and>
         (turn self + 1 = 4 \<longrightarrow>
            run self messages =
              scene_4 (begin_turn self (player_input messages)) (player_input messages)) \<and>
         (5 \<le> turn self + 1 \<and> turn self + 1 \<le> 9 \<longrightarrow>
            run self messages =
              generic_scene (begin_turn self (player_input messages))
                (player_input messages))"
  using assms by (simp add: run_def Let_def turn_begin_turn max_turns_begin_turn)

theorem default_schedule_witness:
  "max_turns VoiceGM_new = 10 \<and>
   run (VoiceGM_new\<lparr>turn := 0\<rparr>) [''hello''] =
     scene_1 (begin_turn (VoiceGM_new\<lparr>turn := 0\<rparr>) ''hello'') \<and>
   run (VoiceGM_new\<lparr>turn := 1\<rparr>) [''hello''] =
     scene_2 (begin_turn (VoiceGM_new\<lparr>turn := 1\<rparr>) ''hello'') ''hello'' \<and>
   run (VoiceGM_new\<lparr>turn := 2\<rparr>) [''hello''] =
     scene_3 (begin_turn (VoiceGM_new\<lparr>turn := 2\<rparr>) ''hello'') ''hello'' \<and>
   run (VoiceGM_new\<lparr>turn := 3\<rparr>) [''hello''] =
     scene_4 (begin_turn (VoiceGM_new\<lparr>turn := 3\<rparr>) ''hello'') ''hello'' \<and>
   run (VoiceGM_new\<lparr>turn := 6\<rparr>) [''hello''] =
     generic_scene (begin_turn (VoiceGM_new\<lparr>turn := 6\<rparr>) ''hello'') ''hello''"
  using default_schedule [of "VoiceGM_new\<lparr>turn := 0\<rparr>" "[''hello'']"]
    default_schedule [of "VoiceGM_new\<lparr>turn := 1\<rparr>" "[''hello'']"]
    default_schedule [of "VoiceGM_new\<lparr>turn := 2\<rparr>" "[''hello'']"]
    default_schedule [of "VoiceGM_new\<lparr>turn := 3\<rparr>" "[''hello'']"]
    default_schedule [of "VoiceGM_new\<lparr>turn := 6\<rparr>" "[''hello'']"]
  by (simp add: VoiceGM_new_def player_input_def)

subsection \<open>C4: the log of the player's actions\<close>

text \<open>
  C4: the player's utterance \<open>u\<close> is the content of the last message of the context,
  whatever the earlier messages \<open>ms\<close> are. A call whose utterance is not empty appends
  exactly one entry to \<^verbatim>\<open>past_actions\<close>, the first 80 characters of the utterance (the
  whole utterance when it is shorter); a call whose utterance is empty, or whose context
  has no message at all, leaves \<^verbatim>\<open>past_actions\<close> as it was.
\<close>

theorem past_actions_append:
  "past_actions (memory (snd (run self (ms @ [u])))) =
     past_actions (memory self) @ (if u \<noteq> [] then [take 80 u] else [])
   \<and> past_actions (memory (snd (run self (ms @ [[]])))) = past_actions (memory self)
   \<and> past_actions (memory (snd (run self []))) = past_actions (memory self)
   \<and> length (take 80 u) \<le> 80
   \<and> prefix (take 80 u) u"
  by (simp add: memory_run memory_begin_turn player_input_def Let_def take_is_prefix)

subsection \<open>C5: the turn counter\<close>

text \<open>
  C5: every call adds exactly 1 to \<^verbatim>\<open>turn\<close>, so the counter never goes down; two calls
  in a row add 2, the second call does not leave the object as the first left it, and
  any sequence of calls adds its length. Each call returns the narration of one of the
  six scenes (the narrations do not depend on the object they are computed on).
\<close>

theorem turn_incremented:
  "turn (snd (run self m1)) = turn self + 1 \<and>
   turn self < turn (snd (run self m1)) \<and>
   turn (snd (run (snd (run self m1)) m2)) = turn self + 2 \<and>
   snd (run (snd (run self m1)) m2) \<noteq> snd (run self m1) \<and>
   turn (run_calls self cs) = turn self + int (length cs) \<and>
   fst (run self m1) \<in>
     {fst (scene_1 self), fst (scene_2 self (player_input m1)),
      fst (scene_3 self (player_input m1)), fst (scene_4 self (player_input m1)),
      fst (final_scene self), fst (generic_scene self (player_input m1))} \<and>
   fst (run (snd (run self m1)) m2) \<in>
     {fst (scene_1 self), fst (scene_2 self (player_input m2)),
      fst (scene_3 self (player_input m2)), fst (scene_4 self (player_input m2)),
      fst (final_scene self), fst (generic_scene self (player_input m2))}"
proof -
  have narr: "fst (run s m) \<in>
     {fst (scene_1 self), fst (scene_2 self (player_input m)),
      fst (scene_3 self (player_input m)), fst (scene_4 self (player_input m)),
      fst (final_scene self), fst (generic_scene self (player_input m))}" for s m
    by (simp add: run_def Let_def scene_defs)
  have two: "turn (snd (run (snd (run self m1)) m2)) = turn self + 2"
    by (simp add: turn_run)
  have "turn (snd (run (snd (run self m1)) m2)) \<noteq> turn (snd (run self m1))"
    by (simp add: turn_run)
  then have neq: "snd (run (snd (run self m1)) m2) \<noteq> snd (run self m1)"
    by auto
  show ?thesis
    using narr [of self m1] narr [of "snd (run self m1)" m2] two neq
    by (simp add: turn_run turn_run_calls)
qed

subsection \<open>C6: the lists only grow\<close>

text \<open>
  C6: along any sequence of calls, from any object, each of \<^verbatim>\<open>visited_places\<close>,
  \<^verbatim>\<open>inventory\<close>, \<^verbatim>\<open>allies\<close> and \<^verbatim>\<open>past_actions\<close> after the first calls \<open>cs\<close> is a
  prefix of the same list after the further calls \<open>ds\<close>: entries stay, in place and in
  order, and the lengths do not decrease. In a session that starts from a fresh object
  (\<^verbatim>\<open>max_turns = 10\<close>), \<^verbatim>\<open>visited_places\<close> never has more than 2 entries and
  \<^verbatim>\<open>inventory\<close> and \<^verbatim>\<open>allies\<close> never more than 1.
\<close>

theorem memory_lists_append_only:
  "prefix (visited_places (memory (run_calls self cs)))
          (visited_places (memory (run_calls self (cs @ ds)))) \<and>
   prefix (inventory (memory (run_calls self cs)))
          (inventory (memory (run_calls self (cs @ ds)))) \<and>
   prefix (allies (memory (run_calls self cs)))
          (allies (memory (run_calls self (cs @ ds)))) \<and>
   prefix (past_actions (memory (run_calls self cs)))
          (past_actions (memory (run_calls self (cs @ ds)))) \<and>
   length (visited_places (memory (run_calls self cs)))
     \<le> length (visited_places (memory (run_calls self (cs @ ds)))) \<and>
   length (inventory (memory (run_calls self cs)))
     \<le> length (inventory (memory (run_calls self (cs @ ds)))) \<and>
   length (allies (memory (run_calls self cs)))
     \<le> length (allies (memory (run_calls self (cs @ ds)))) \<and>
   length (past_actions (memory (run_calls self cs)))
     \<le> length (past_actions (memory (run_calls self (cs @ ds)))) \<and>
   length (visited_places (memory (run_calls VoiceGM_new cs))) \<le> 2 \<and>
   length (inventory (memory (run_calls VoiceGM_new cs))) \<le> 1 \<and>
   length (allies (memory (run_calls VoiceGM_new cs))) \<le> 1"
proof -
  have bounds:
    "length (visited_places (memory (run_calls VoiceGM_new cs))) \<le> 2"
    "length (inventory (memory (run_calls VoiceGM_new cs))) \<le> 1"
    "length (allies (memory (run_calls VoiceGM_new cs))) \<le> 1"
    using session_inv_session [of cs] by (simp_all add: session_inv_def)
  from bounds show ?thesis
    by (simp add: run_calls_append prefix_visited_places prefix_inventory prefix_allies
        prefix_past_actions prefix_length_le)
qed

subsection \<open>C7: the wolf encounter\<close>

text \<open>
  C7: \<^verbatim>\<open>scene_4\<close> subtracts exactly 10 from \<^verbatim>\<open>health\<close> and changes nothing else of the
  object; there is no floor (from 5 the health becomes -5). In a session from a fresh
  object, whatever the four contexts are, the health is 100 after three calls, the
  fourth call is that of \<^verbatim>\<open>scene_4\<close>, and the health is 90 after it.
\<close>

theorem wolf_encounter_health:
  "snd (scene_4 self action) =
     self\<lparr>memory := (memory self)\<lparr>health := health (memory self) - 10\<rparr>\<rparr> \<and>
   health (memory (snd (scene_4 (self\<lparr>memory := (memory self)\<lparr>health := 5\<rparr>\<rparr>) action)))
     = - 5 \<and>
   health (memory (run_calls VoiceGM_new [m1, m2, m3])) = 100 \<and>
   run (run_calls VoiceGM_new [m1, m2, m3]) m4 =
     scene_4 (begin_turn (run_calls VoiceGM_new [m1, m2, m3]) (player_input m4))
       (player_input m4) \<and>
   health (memory (run_calls VoiceGM_new [m1, m2, m3, m4])) = 90"
proof -
  have a: "health (memory (run_calls VoiceGM_new [m1, m2, m3])) = 100"
    using session_inv_session [of "[m1, m2, m3]"] session_turn [of "[m1, m2, m3]"]
    by (simp add: session_inv_def)
  have b: "health (memory (run_calls VoiceGM_new [m1, m2, m3, m4])) = 90"
    using session_inv_session [of "[m1, m2, m3, m4]"] session_turn [of "[m1, m2, m3, m4]"]
    by (simp add: session_inv_def)
  have c: "run (run_calls VoiceGM_new [m1, m2, m3]) m4 =
     scene_4 (begin_turn (run_calls VoiceGM_new [m1, m2, m3]) (player_input m4))
       (player_input m4)"
    using session_turn [of "[m1, m2, m3]"]
    by (simp add: run_def Let_def turn_begin_turn)
  have d: "snd (scene_4 self action) =
     self\<lparr>memory := (memory self)\<lparr>health := health (memory self) - 10\<rparr>\<rparr>"
    by (simp add: scene_4_def)
  have e: "health (memory (snd (scene_4 (self\<lparr>memory := (memory self)\<lparr>health := 5\<rparr>\<rparr>)
      action))) = - 5"
    by (simp add: scene_4_def)
  from a b c d e show ?thesis by (simp only: simp_thms)
qed

subsection \<open>C8: the final scene repeats\<close>

text \<open>
  C8, as stated, fails where \<^verbatim>\<open>max_turns\<close> is below 5. With \<^verbatim>\<open>max_turns\<close> set to 3 on
  a fresh object, the counter has reached \<^verbatim>\<open>max_turns\<close> after three calls; the fourth
  call is still that of \<^verbatim>\<open>scene_4\<close>: it does not return the final narration, and it
  takes the health from 100 to 90.
\<close>

theorem slot_4_after_max_turns_reached:
  "max_turns (run_calls (VoiceGM_new\<lparr>max_turns := 3\<rparr>) [[], [], []])
     \<le> turn (run_calls (VoiceGM_new\<lparr>max_turns := 3\<rparr>) [[], [], []])
   \<and> run (run_calls (VoiceGM_new\<lparr>max_turns := 3\<rparr>) [[], [], []]) [] =
       scene_4 (begin_turn (run_calls (VoiceGM_new\<lparr>max_turns := 3\<rparr>) [[], [], []]) []) []
   \<and> fst (run (run_calls (VoiceGM_new\<lparr>max_turns := 3\<rparr>) [[], [], []]) []) \<noteq>
       fst (final_scene (run_calls (VoiceGM_new\<lparr>max_turns := 3\<rparr>) [[], [], []]))
   \<and> health (memory (run_calls (VoiceGM_new\<lparr>max_turns := 3\<rparr>) [[], [], []])) = 100
   \<and> health (memory (snd (run (run_calls (VoiceGM_new\<lparr>max_turns := 3\<rparr>) [[], [], []]) []))) = 90"
  by (simp add: run_def Let_def begin_turn_def player_input_def scene_defs VoiceGM_new_def
      PlayerMemory_new_def)

text \<open>
  C8, amended: once the calls made so far bring the next turn to \<^verbatim>\<open>max_turns\<close> or beyond
  and past the numbered slots (to 5 or beyond), the next call is that of
  \<^verbatim>\<open>final_scene\<close>: it returns the final narration and changes the memory by the log
  entry of \<^verbatim>\<open>past_actions\<close> only. Both hypotheses still hold after that call, so every
  later call does the same; none is refused. Where \<^verbatim>\<open>max_turns\<close> is at least 5 the
  second hypothesis follows from the first; with \<^verbatim>\<open>max_turns = 10\<close>, from a fresh
  object, these are the 10th call and all calls after it.
\<close>

theorem final_scene_saturates:
  assumes "max_turns self \<le> turn self + int (length cs) + 1"
    and "5 \<le> turn self + int (length cs) + 1"
  shows "run (run_calls self cs) messages =
           final_scene (begin_turn (run_calls self cs) (player_input messages)) \<and>
         fst (run (run_calls self cs) messages) = fst (final_scene self) \<and>
         memory (snd (run (run_calls self cs) messages)) =
           (memory (run_calls self cs))
             \<lparr>past_actions := past_actions (memory (run_calls self cs)) @
                (if player_input messages \<noteq> [] then [take 80 (player_input messages)]
                 else [])\<rparr> \<and>
         max_turns (snd (run (run_calls self cs) messages))
           \<le> turn (snd (run (run_calls self cs) messages)) + 1 \<and>
         5 \<le> turn (snd (run (run_calls self cs) messages)) + 1"
proof -
  have r: "run (run_calls self cs) messages =
           final_scene (begin_turn (run_calls self cs) (player_input messages))"
    using assms
    by (simp add: run_def Let_def turn_begin_turn max_turns_begin_turn turn_run_calls
        max_turns_run_calls)
  have later:
    "max_turns (snd (run (run_calls self cs) messages))
       \<le> turn (snd (run (run_calls self cs) messages)) + 1"
    "5 \<le> turn (snd (run (run_calls self cs) messages)) + 1"
    using assms by (simp_all add: turn_run max_turns_run turn_run_calls max_turns_run_calls)
  have "fst (run (run_calls self cs) messages) = fst (final_scene self) \<and>
        memory (snd (run (run_calls self cs) messages)) =
           (memory (run_calls self cs))
             \<lparr>past_actions := past_actions (memory (run_calls self cs)) @
                (if player_input messages \<noteq> [] then [take 80 (player_input messages)]
                 else [])\<rparr>"
    unfolding r by (simp add: final_scene_def memory_begin_turn)
  with r later show ?thesis by (simp only: simp_thms)
qed

theorem final_scene_saturates_witness:
  "max_turns VoiceGM_new
     \<le> turn VoiceGM_new + int (length [[''a''], [], [], [], [], [], [], [], [''b'']]) + 1 \<and>
   5 \<le> turn VoiceGM_new + int (length [[''a''], [], [], [], [], [], [], [], [''b'']]) + 1 \<and>
   fst (run (run_calls VoiceGM_new [[''a''], [], [], [], [], [], [], [], [''b'']]) [''open'']) =
     ''You reach a stone door with a glowing star mark. Fenrix nods at you. The door opens slowly. A new quest begins. What do you do?'' \<and>
   past_actions
     (memory (snd (run (run_calls VoiceGM_new [[''a''], [], [], [], [], [], [], [], [''b'']]) [''open'']))) =
     [''a'', ''b'', ''open''] \<and>
   max_turns VoiceGM_new
     \<le> turn VoiceGM_new + int (length [[''a''], [], [], [], [], [], [], [], [''b''], []]) + 1 \<and>
   fst (run (run_calls VoiceGM_new [[''a''], [], [], [], [], [], [], [], [''b''], []]) [''again'']) =
     ''You reach a stone door with a glowing star mark. Fenrix nods at you. The door opens slowly. A new quest begins. What do you do?'' \<and>
   max_turns (VoiceGM_new\<lparr>max_turns := 3\<rparr>)
     \<le> turn (VoiceGM_new\<lparr>max_turns := 3\<rparr>) + int (length [[], [], [], []]) + 1 \<and>
   5 \<le> turn (VoiceGM_new\<lparr>max_turns := 3\<rparr>) + int (length [[], [], [], []]) + 1 \<and>
   fst (run (run_calls (VoiceGM_new\<lparr>max_turns := 3\<rparr>) [[], [], [], []]) []) =
     ''You reach a stone door with a glowing star mark. Fenrix nods at you. The door opens slowly. A new quest begins. What do you do?''"
  using final_scene_saturates [of VoiceGM_new "[[''a''], [], [], [], [], [], [], [], [''b'']]" "[''open'']"]
    final_scene_saturates [of VoiceGM_new "[[''a''], [], [], [], [], [], [], [], [''b''], []]" "[''again'']"]
    final_scene_saturates [of "VoiceGM_new\<lparr>max_turns := 3\<rparr>" "[[], [], [], []]" "[]"]
  by (simp add: VoiceGM_new_def PlayerMemory_new_def player_input_def run_def
      begin_turn_def Let_def scene_defs)

subsection \<open>C9: the name\<close>

text \<open>
  C9: no call changes the field \<^verbatim>\<open>name\<close> of the memory, from any object, with any
  context, and so no sequence of calls does; \<^verbatim>\<open>__init__\<close> sets it to \<^verbatim>\<open>Arin\<close>, which it
  is after any number of calls of a session.
\<close>

theorem name_unchanged:
  "name (memory (snd (run self messages))) = name (memory self) \<and>
   name (memory (run_calls self cs)) = name (memory self) \<and>
   name (memory VoiceGM_new) = ''Arin'' \<and>
   name (memory (run_calls VoiceGM_new cs)) = ''Arin''"
proof -
  have step: "name (memory (snd (run s m))) = name (memory s)" for s m
    by (simp add: memory_run memory_begin_turn Let_def)
  have "name (memory (run_calls s cs)) = name (memory s)" for s
    by (induction cs arbitrary: s) (simp_all add: step)
  then show ?thesis
    by (simp add: step VoiceGM_new_def PlayerMemory_new_def)
qed

subsection \<open>C10: the health of a session\<close>

text \<open>
  C10: in a session from a fresh object (\<^verbatim>\<open>max_turns = 10\<close>), after \<open>N\<close> calls with any
  contexts the health is 100 when \<open>N < 4\<close> and 90 when \<open>N \<ge> 4\<close>; it is never below 90.
\<close>

theorem session_health:
  "health (memory (run_calls VoiceGM_new cs)) = (if length cs < 4 then 100 else 90) \<and>
   90 \<le> health (memory (run_calls VoiceGM_new cs))"
  using session_inv_session [of cs] session_turn [of cs]
  by (simp add: session_inv_def)

end
